theory Spec2Isabelle
  imports Complex_Main
begin

section \<open>The appointment document (models/Appointment.js)\<close>

text \<open>
  The Mongoose schema \<open>appointmentSchema\<close> declares the paths below. A \<open>Date\<close> is its
  \<open>getTime()\<close> value (milliseconds since the epoch, an integer); a path with no
  \<open>required\<close> and no \<open>default\<close> may be absent (\<open>None\<close>). \<open>status\<close>,
  \<open>paymentStatus\<close> and \<open>package\<close> are JavaScript strings: the enum lists of the schema are
  validators, run by \<open>save()\<close>, not types. \<open>videoCall\<close> is a nested path, so it is always
  an object on a loaded document. The \<open>createdAt\<close>/\<open>updatedAt\<close> stamps that
  \<open>timestamps: true\<close> adds are read by none of the handlers below and are left out;
  the path \<open>notes\<close> is the field \<open>notes'\<close> (the plain name is reserved).
  An \<open>objectId\<close> is an ObjectId as \<open>toString()\<close> prints it: 24 lower-case hexadecimal
  digits.
\<close>

type_synonym objectId = string

record video_call =
  roomName :: "string option"
  roomUrl :: "string option"
  isActive :: bool
  startedAt :: "int option"
  endedAt :: "int option"
  recordingUrl :: "string option"

record appointment =
  user :: objectId
  appointmentDate :: int
  appointmentTime :: string
  consultationType :: string
  package :: string
  amount :: int
  duration :: int
  clientQuestions :: "(string \<times> string) list"
  status :: string
  paymentStatus :: string
  videoCall :: video_call
  paymentId :: "string option"
  orderId :: "string option"
  videoRoomUrl :: "string option"
  videoRoomName :: "string option"
  notes' :: "string option"
  rating :: "int option"
  review :: "string option"

definition packageEnum :: "string list" where
  "packageEnum = [''basic'', ''premium'', ''advanced'']"

definition statusEnum :: "string list" where
  "statusEnum = [''pending'', ''confirmed'', ''completed'', ''cancelled'']"

definition paymentStatusEnum :: "string list" where
  "paymentStatusEnum = [''pending'', ''completed'', ''failed'', ''refunded'']"

text \<open>Every path of the schema, nested ones dotted as MongoDB names them.\<close>

definition schemaPaths :: "string list" where
  "schemaPaths =
     [''user'', ''appointmentDate'', ''appointmentTime'', ''consultationType'', ''package'',
      ''amount'', ''duration'', ''clientQuestions'', ''status'', ''paymentStatus'',
      ''videoCall.roomName'', ''videoCall.roomUrl'', ''videoCall.isActive'',
      ''videoCall.startedAt'', ''videoCall.endedAt'', ''videoCall.recordingUrl'',
      ''paymentId'', ''orderId'', ''videoRoomUrl'', ''videoRoomName'', ''notes'', ''rating'',
      ''review'', ''createdAt'', ''updatedAt'']"

section \<open>The record store: what the handlers use of Mongoose\<close>

text \<open>
  The store maps the ObjectId of each document to the document. Exceptions are those
  thrown inside a handler's \<open>try\<close> block; failures are the kinds of the responses (HTTP
  404, 403, 400 and 500).
\<close>

type_synonym store = "objectId \<rightharpoonup> appointment"

datatype exn = ValidationError | ReferenceError | ModuleNotFound | BridgeError | CastError

datatype failure =
    NotFound | Forbidden | TooLate | MissingField | InvalidPackage | InvalidStatus
  | ValidationFailed | ServerError

text \<open>\<open>String.prototype.toLowerCase\<close>, on ASCII letters.\<close>

definition toLowerChar :: "char \<Rightarrow> char" where
  "toLowerChar c =
     (let n = (of_char c :: nat) in if 65 \<le> n \<and> n \<le> 90 then char_of (n + 32) else c)"

definition toLowerCase :: "string \<Rightarrow> string" where
  "toLowerCase s = map toLowerChar s"

text \<open>
  A request names a document by a string, which Mongoose casts to an ObjectId before it
  queries: a string of 24 hexadecimal digits casts to the ObjectId it spells, whatever
  the case of its letters, so one document answers to several strings; a string that does
  not cast makes the query reject with a \<open>CastError\<close>. \<open>findById\<close> resolves to the
  document, here with its \<open>_id\<close>, or to \<open>null\<close>.
\<close>

definition isHexDigit :: "char \<Rightarrow> bool" where
  "isHexDigit c =
     (let n = (of_char c :: nat)
      in (48 \<le> n \<and> n \<le> 57) \<or> (65 \<le> n \<and> n \<le> 70) \<or> (97 \<le> n \<and> n \<le> 102))"

definition castObjectId :: "string \<Rightarrow> objectId option" where
  "castObjectId s =
     (if length s = 24 \<and> list_all isHexDigit s then Some (toLowerCase s) else None)"

definition findById :: "store \<Rightarrow> string \<Rightarrow> exn + (objectId \<times> appointment) option" where
  "findById db i =
     (case castObjectId i of
        None \<Rightarrow> Inl CastError
      | Some k \<Rightarrow> Inr (map_option (Pair k) (db k)))"

text \<open>
  \<open>doc.save()\<close> validates the document before it writes: the validators of the schema
  run on the paths of the loaded document, modified or not, and a failing one rejects the
  call with a \<open>ValidationError\<close>, nothing being written. The validators are the three
  enums and the range of \<open>rating\<close>; the required paths are always present here.
\<close>

definition validateDocument :: "appointment \<Rightarrow> bool" where
  "validateDocument doc \<longleftrightarrow>
     package doc \<in> set packageEnum \<and> status doc \<in> set statusEnum \<and>
     paymentStatus doc \<in> set paymentStatusEnum \<and>
     (case rating doc of None \<Rightarrow> True | Some r \<Rightarrow> 1 \<le> r \<and> r \<le> 5)"

definition save :: "store \<Rightarrow> objectId \<Rightarrow> appointment \<Rightarrow> exn + store" where
  "save db k doc =
     (if validateDocument doc then Inr (db(k \<mapsto> doc)) else Inl ValidationError)"

text \<open>
  \<open>Model.findByIdAndUpdate(id, update)\<close>: the id is cast as above; the update document is
  a list of path/value pairs. The schema is strict (the default), so a pair whose path
  the schema does not declare is dropped before the update is sent; validators do not run
  (\<open>runValidators\<close> is off by default); an id that matches no document updates nothing and
  the call resolves to \<open>null\<close>. \<open>setPath\<close> assigns the String paths that the handlers'
  updates name.
\<close>

datatype jsValue = Str string | DateValue int | Undefined

definition castUpdate :: "(string \<times> jsValue) list \<Rightarrow> (string \<times> jsValue) list" where
  "castUpdate update = filter (\<lambda>(path, v). path \<in> set schemaPaths) update"

fun setPath :: "string \<times> jsValue \<Rightarrow> appointment \<Rightarrow> appointment" where
  "setPath (path, Str s) doc =
     (if path = ''status'' then doc\<lparr>status := s\<rparr>
      else if path = ''paymentStatus'' then doc\<lparr>paymentStatus := s\<rparr>
      else if path = ''notes'' then doc\<lparr>notes' := Some s\<rparr>
      else doc)"
| "setPath (path, v) doc = doc"

definition findByIdAndUpdate ::
  "store \<Rightarrow> string \<Rightarrow> (string \<times> jsValue) list \<Rightarrow> exn + appointment option \<times> store" where
  "findByIdAndUpdate db i update =
     (case castObjectId i of
        None \<Rightarrow> Inl CastError
      | Some k \<Rightarrow>
          (case db k of
             None \<Rightarrow> Inr (None, db)
           | Some doc \<Rightarrow> Inr (Some doc, db(k \<mapsto> fold setPath (castUpdate update) doc))))"

section \<open>Availability (GET /available-slots/:date, routes/appointments.js)\<close>

text \<open>
  \<open>new Date(date)\<close> is a time value or an invalid date. A date written as
  \<open>YYYY-MM-DD\<close> is read as midnight UTC of that day: \<open>dateOnly day\<close> is the value for the
  day with number \<open>day\<close>, counted from 1970-01-01. \<open>getDay()\<close> is the weekday of the
  local day: \<open>(Day(t) + 4) mod 7\<close> with \<open>Day(t) = floor(t / 86400000)\<close> of the local
  time, Sunday being 0, and \<open>NaN\<close> (here \<open>None\<close>) on an invalid date. \<open>tz\<close> is the
  server's offset from UTC in minutes. \<open>getUTCDay()\<close> is the weekday of the UTC day,
  which for a date-only value is the weekday of the date that was written.
\<close>

datatype jsDate = InvalidDate | Date int

definition getDay :: "int \<Rightarrow> jsDate \<Rightarrow> int option" where
  "getDay tz d =
     (case d of
        InvalidDate \<Rightarrow> None
      | Date t \<Rightarrow> Some (((t + tz * 60000) div 86400000 + 4) mod 7))"

definition dateOnly :: "int \<Rightarrow> jsDate" where
  "dateOnly day = Date (day * 86400000)"

definition getUTCDay :: "jsDate \<Rightarrow> int option" where
  "getUTCDay d = getDay 0 d"

record slot =
  time :: string
  label :: string

definition slots :: "slot list" where
  "slots =
     [\<lparr>time = ''17:00'', label = ''5:00 PM - 5:30 PM''\<rparr>,
      \<lparr>time = ''17:30'', label = ''5:30 PM - 6:00 PM''\<rparr>,
      \<lparr>time = ''18:00'', label = ''6:00 PM - 6:30 PM''\<rparr>,
      \<lparr>time = ''18:30'', label = ''6:30 PM - 7:00 PM''\<rparr>,
      \<lparr>time = ''19:00'', label = ''7:00 PM - 7:30 PM''\<rparr>,
      \<lparr>time = ''19:30'', label = ''7:30 PM - 8:00 PM''\<rparr>]"

definition available_slots :: "int \<Rightarrow> jsDate \<Rightarrow> slot list" where
  "available_slots tz date =
     (let dayOfWeek = getDay tz date
      in if dayOfWeek = Some 0 then [] else slots)"

section \<open>Package resolution (POST /, routes/appointments.js)\<close>

text \<open>
  \<open>packageMapping[name] || name?.toLowerCase()\<close>: the object literal is looked up by the
  exact name; every value of the table is a non-empty string, so the right operand is used
  exactly when the name is not a key. A name found on \<open>Object.prototype\<close> (such as
  \<open>constructor\<close>) gives a non-string that \<open>includes\<close> rejects, as its lower-cased name
  is rejected here. \<open>None\<close> is an absent name.
\<close>

definition packageMapping :: "(string \<times> string) list" where
  "packageMapping =
     [(''Basic Consultation'', ''basic''),
      (''Premium Consultation'', ''premium''),
      (''Advanced Consultation'', ''advanced''),
      (''basic'', ''basic''),
      (''premium'', ''premium''),
      (''advanced'', ''advanced'')]"

definition mappedPackage :: "string option \<Rightarrow> string option" where
  "mappedPackage name =
     (case name of
        None \<Rightarrow> None
      | Some n \<Rightarrow>
          (case map_of packageMapping n of
             Some p \<Rightarrow> Some p
           | None \<Rightarrow> Some (toLowerCase n)))"

text \<open>The check of lines 81-88: a falsy or unlisted \<open>mappedPackage\<close> is refused.\<close>

definition resolvePackage :: "string option \<Rightarrow> failure + string" where
  "resolvePackage name =
     (case mappedPackage name of
        None \<Rightarrow> Inl InvalidPackage
      | Some p \<Rightarrow> if p = [] \<or> p \<notin> set packageEnum then Inl InvalidPackage else Inr p)"

section \<open>Create (POST /, routes/appointments.js)\<close>

text \<open>
  The handler's arguments are the fields it destructures from the request body:
  \<open>bodyDate\<close>, \<open>bodyTime\<close> and \<open>bodyType\<close> are its \<open>appointmentDate\<close>,
  \<open>appointmentTime\<close> and \<open>consultationType\<close>, and \<open>minutes\<close> is the package's
  \<open>duration\<close>. A string field is falsy when it is absent or empty, \<open>packageInfo\<close> when
  it is absent. \<open>uid\<close> is \<open>req.user.id\<close>, \<open>newId\<close> the id a new document would get.

  After the two checks the \<open>try\<close> block runs, in this order. Line 100 requires the
  module \<open>../services/emailService\<close> (\<open>emailService\<close> says whether it resolves). Line
  102 calls \<open>appointment.save()\<close>, where \<open>appointment\<close> is the \<open>const\<close> that line 111
  declares in the same block: the binding exists from the start of the block and is
  uninitialised until line 111, so reading it throws a \<open>ReferenceError\<close>. Had the read
  succeeded, line 107 reads \<open>User\<close>, which this module never declares. Control therefore
  never reaches lines 110-130 (\<open>new Appointment\<close> with \<open>status\<close> and \<open>paymentStatus\<close>
  \<open>pending\<close>, the second \<open>save\<close>, the 201 response). The \<open>catch\<close> answers 400 to a
  \<open>ValidationError\<close> and 500 to anything else.
\<close>

record package_info =
  name :: "string option"
  price :: "int option"
  minutes :: "int option"

definition falsy :: "string option \<Rightarrow> bool" where
  "falsy v \<longleftrightarrow> v = None \<or> v = Some []"

datatype 'a binding = Uninitialized | Initialized 'a

definition readBinding :: "'a binding \<Rightarrow> exn + 'a" where
  "readBinding b = (case b of Uninitialized \<Rightarrow> Inl ReferenceError | Initialized v \<Rightarrow> Inr v)"

definition requireModule :: "bool \<Rightarrow> exn + unit" where
  "requireModule resolves = (if resolves then Inr () else Inl ModuleNotFound)"

definition create_try :: "bool \<Rightarrow> objectId \<Rightarrow> store \<Rightarrow> (exn + appointment) \<times> store" where
  "create_try emailService newId db =
     (let appointment = (Uninitialized :: appointment binding)
      in case requireModule emailService of
           Inl e \<Rightarrow> (Inl e, db)
         | Inr u \<Rightarrow>
             (case readBinding appointment of
                Inl e \<Rightarrow> (Inl e, db)
              | Inr early \<Rightarrow>
                  (case save db newId early of
                     Inl e \<Rightarrow> (Inl e, db)
                   | Inr db1 \<Rightarrow> (Inl ReferenceError, db1))))"

definition create_catch :: "exn \<Rightarrow> failure" where
  "create_catch e = (if e = ValidationError then ValidationFailed else ServerError)"

definition create_appointment ::
  "bool \<Rightarrow> objectId \<Rightarrow> objectId \<Rightarrow> string option \<Rightarrow> string option \<Rightarrow> string option \<Rightarrow>
   package_info option \<Rightarrow> store \<Rightarrow> (failure + appointment) \<times> store" where
  "create_appointment emailService newId uid bodyDate bodyTime bodyType packageInfo db =
     (case packageInfo of
        None \<Rightarrow> (Inl MissingField, db)
      | Some info \<Rightarrow>
          if falsy bodyDate \<or> falsy bodyTime \<or> falsy bodyType
          then (Inl MissingField, db)
          else
            (case resolvePackage (name info) of
               Inl f \<Rightarrow> (Inl f, db)
             | Inr mapped \<Rightarrow>
                 (case create_try emailService newId db of
                    (Inl e, db1) \<Rightarrow> (Inl (create_catch e), db1)
                  | (Inr doc, db1) \<Rightarrow> (Inr doc, db1))))"

section \<open>Cancel (PUT /:id/cancel, routes/appointments.js)\<close>

text \<open>
  \<open>i\<close> is the id of the request, \<open>uid\<close> is \<open>req.user.id\<close>, \<open>now\<close> the value of
  \<open>new Date().getTime()\<close>. The lead time is measured to the stored \<open>appointmentDate\<close>;
  \<open>appointmentTime\<close> is not read. The quotient is a double in the source; for integer
  milliseconds it is below 2 exactly when the real quotient is. Every exception ends in
  the 500 of the \<open>catch\<close> block.
\<close>

definition hoursUntil :: "appointment \<Rightarrow> int \<Rightarrow> real" where
  "hoursUntil appointment now =
     (let timeDiff = appointmentDate appointment - now
      in real_of_int timeDiff / (1000 * 60 * 60))"

definition cancel_appointment ::
  "string \<Rightarrow> objectId \<Rightarrow> int \<Rightarrow> store \<Rightarrow> (failure + appointment) \<times> store" where
  "cancel_appointment i uid now db =
     (case findById db i of
        Inl e \<Rightarrow> (Inl ServerError, db)
      | Inr None \<Rightarrow> (Inl NotFound, db)
      | Inr (Some (k, appointment)) \<Rightarrow>
          if user appointment \<noteq> uid then (Inl Forbidden, db)
          else if hoursUntil appointment now < 2 \<and> status appointment \<noteq> ''pending''
          then (Inl TooLate, db)
          else
            (let doc = appointment\<lparr>status := ''cancelled'', paymentStatus := ''refunded''\<rparr>
             in case save db k doc of
                  Inl e \<Rightarrow> (Inl ServerError, db)
                | Inr db1 \<Rightarrow> (Inr doc, db1)))"

text \<open>
  The notification listing of the user routes (GET /notifications) computes the start of
  a booking from both fields: it copies \<open>appointmentDate\<close> and calls
  \<open>setHours(hours, minutes, 0, 0)\<close> with the two numbers of \<open>appointmentTime\<close>.
  \<open>setHours\<close> keeps the local day of the time value \<open>t\<close> and sets its time of day.
\<close>

definition setHours :: "int \<Rightarrow> int \<Rightarrow> int \<Rightarrow> int \<Rightarrow> int" where
  "setHours tz t hours mins =
     (let localDay = (t + tz * 60000) div 86400000
      in localDay * 86400000 + hours * 3600000 + mins * 60000 - tz * 60000)"

section \<open>Admin status override (PUT /appointments/:id/status, routes/admin.js)\<close>



section \<open>Payment callbacks (POST /verify and POST /failed, routes/payments.js)\<close>

text \<open>
  Both handlers run behind \<open>authenticate\<close> and do not read \<open>req.user\<close>. Neither looks at
  what \<open>findByIdAndUpdate\<close> resolves to.
\<close>

definition verifyUpdate :: "jsValue \<Rightarrow> int \<Rightarrow> (string \<times> jsValue) list" where
  "verifyUpdate razorpayPaymentId now =
     [(''paymentStatus'', Str ''completed''),
      (''status'', Str ''confirmed''),
      (''razorpayPaymentId'', razorpayPaymentId),
      (''paidAt'', DateValue now)]"

definition verify_payment ::
  "jsValue \<Rightarrow> jsValue \<Rightarrow> jsValue \<Rightarrow> string \<Rightarrow> int \<Rightarrow> store \<Rightarrow> (failure + unit) \<times> store" where
  "verify_payment razorpayOrderId razorpayPaymentId razorpaySignature appointmentId now db =
     (case findByIdAndUpdate db appointmentId (verifyUpdate razorpayPaymentId now) of
        Inl e \<Rightarrow> (Inl ServerError, db)
      | Inr (found, db1) \<Rightarrow> (Inr (), db1))"



section \<open>Video rooms (services/dailyService.js, routes/videoCall.js)\<close>

text \<open>
  \<open>post\<close> is the provider's answer to \<open>POST /rooms\<close>: the \<open>name\<close> and \<open>url\<close> of the
  response, or \<open>None\<close> when the request fails. \<open>expiryTime\<close> is the optional second
  argument (\<open>null\<close> by default); a \<open>Date\<close> object is truthy, so the default of two hours
  from \<open>now\<close> applies only when no expiry is passed. The room is named after the
  appointment id as the caller wrote it.
\<close>

record room_properties =
  start_video_off :: bool
  start_audio_off :: bool
  exp :: int
  enable_chat :: bool
  enable_screenshare :: bool
  enable_recording :: string
  max_participants :: nat
  lang :: string

type_synonym daily = "string \<Rightarrow> room_properties \<Rightarrow> (string \<times> string) option"

definition roomConfig :: "int \<Rightarrow> room_properties" where
  "roomConfig expiresAt =
     \<lparr>start_video_off = False, start_audio_off = False, exp = expiresAt div 1000,
      enable_chat = True, enable_screenshare = True, enable_recording = ''cloud'',
      max_participants = 2, lang = ''en''\<rparr>"

definition createRoom ::
  "daily \<Rightarrow> int \<Rightarrow> string \<Rightarrow> int option \<Rightarrow> exn + string \<times> string" where
  "createRoom post now appointmentId expiryTime =
     (let room = ''consultation-'' @ appointmentId;
          expiresAt = (case expiryTime of
                         Some t \<Rightarrow> t
                       | None \<Rightarrow> now + 2 * 60 * 60 * 1000)
      in case post room (roomConfig expiresAt) of
           None \<Rightarrow> Inl BridgeError
         | Some (data_name, data_url) \<Rightarrow> Inr (data_name, data_url))"

text \<open>
  POST /create-room/:appointmentId. \<open>uid\<close> and \<open>role\<close> are \<open>req.user.id\<close> and
  \<open>req.user.role\<close>. Assigning an object to the nested path \<open>videoCall\<close> replaces the
  whole nested object. The response carries the \<open>_id\<close> of the document.
\<close>

definition create_room ::
  "daily \<Rightarrow> int \<Rightarrow> string \<Rightarrow> objectId \<Rightarrow> string \<Rightarrow> store \<Rightarrow>
   (failure + string \<times> string \<times> objectId) \<times> store" where
  "create_room post now appointmentId uid role db =
     (case findById db appointmentId of
        Inl e \<Rightarrow> (Inl ServerError, db)
      | Inr None \<Rightarrow> (Inl NotFound, db)
      | Inr (Some (k, appointment)) \<Rightarrow>
          (let isAuthorized = (user appointment = uid \<or> role = ''admin'')
           in if \<not> isAuthorized then (Inl Forbidden, db)
              else
                (let roomExpiry = appointmentDate appointment + 3 * 60 * 60 * 1000
                 in case createRoom post now appointmentId (Some roomExpiry) of
                      Inl e \<Rightarrow> (Inl ServerError, db)
                    | Inr (room, url) \<Rightarrow>
                        (let doc = appointment\<lparr>videoCall :=
                               \<lparr>roomName = Some room, roomUrl = Some url, isActive = False,
                                startedAt = None, endedAt = None, recordingUrl = None\<rparr>\<rparr>
                         in case save db k doc of
                              Inl e \<Rightarrow> (Inl ServerError, db)
                            | Inr db1 \<Rightarrow> (Inr (room, url, k), db1)))))"

text \<open>
  PUT /call-status/:appointmentId. \<open>status0\<close> is the body's \<open>status\<close> (\<open>None\<close> when absent
  or not a string); \<open>now\<close> is \<open>new Date()\<close>. The third component lists the timers the
  handler starts: the room deletion one hour later, started before \<open>save()\<close> is awaited.
\<close>

datatype timer = DeleteRoom "string option" int

definition call_status ::
  "string \<Rightarrow> string option \<Rightarrow> int \<Rightarrow> store \<Rightarrow> (failure + unit) \<times> store \<times> timer list" where
  "call_status appointmentId status0 now db =
     (case findById db appointmentId of
        Inl e \<Rightarrow> (Inl ServerError, db, [])
      | Inr None \<Rightarrow> (Inl NotFound, db, [])
      | Inr (Some (k, appointment)) \<Rightarrow>
          (let (doc, timers) =
                 (if status0 = Some ''started'' then
                    (appointment\<lparr>videoCall := (videoCall appointment)
                         \<lparr>isActive := True, startedAt := Some now\<rparr>,
                       status := ''in-progress''\<rparr>, [])
                  else if status0 = Some ''ended'' then
                    (appointment\<lparr>videoCall := (videoCall appointment)
                         \<lparr>isActive := False, endedAt := Some now\<rparr>,
                       status := ''completed''\<rparr>,
                     [DeleteRoom (roomName (videoCall appointment)) (60 * 60 * 1000)])
                  else (appointment, []))
           in case save db k doc of
                Inl e \<Rightarrow> (Inl ServerError, db, timers)
              | Inr db1 \<Rightarrow> (Inr (), db1, timers)))"

section \<open>Sample data\<close>

text \<open>
  \<open>a1\<close> is the id of the stored sample booking, \<open>a1upper\<close> the same ObjectId written with
  upper-case letters, \<open>a2\<close> an id that is not stored. The booking is a confirmed, paid one
  of user \<open>u1\<close> whose \<open>appointmentDate\<close> is 2025-01-10T17:00:00Z (a Friday), with no
  video room yet; the closed theorems below run the handlers on it.
\<close>

definition a1 :: string where
  "a1 = ''507f1f77bcf86cd799439011''"

definition a1upper :: string where
  "a1upper = ''507F1F77BCF86CD799439011''"

definition a2 :: string where
  "a2 = ''507f1f77bcf86cd799439012''"

definition sample :: appointment where
  "sample =
     \<lparr>user = ''u1'', appointmentDate = 1736528400000, appointmentTime = ''17:00'',
      consultationType = ''career'', package = ''basic'', amount = 500, duration = 30,
      clientQuestions = [], status = ''confirmed'', paymentStatus = ''completed'',
      videoCall = \<lparr>roomName = None, roomUrl = None, isActive = False, startedAt = None,
                   endedAt = None, recordingUrl = None\<rparr>,
      paymentId = None, orderId = None, videoRoomUrl = None, videoRoomName = None,
      notes' = None, rating = None, review = None\<rparr>"

text \<open>The same booking as Create is meant to leave it: not yet paid, not yet confirmed.\<close>

definition samplePending :: appointment where
  "samplePending = sample\<lparr>status := ''pending'', paymentStatus := ''pending''\<rparr>"

text \<open>
  The same booking as a client that sends the date and the slot apart stores it:
  \<open>appointmentDate\<close> is 2025-01-10T00:00:00Z and \<open>appointmentTime\<close> is \<open>17:00\<close>.
\<close>

definition sampleDateOnly :: appointment where
  "sampleDateOnly = sample\<lparr>appointmentDate := 1736467200000\<rparr>"

text \<open>The booking after its call, and after a cancellation.\<close>

definition sampleCompleted :: appointment where
  "sampleCompleted = sample\<lparr>status := ''completed''\<rparr>"

definition sampleCancelled :: appointment where
  "sampleCancelled = sample\<lparr>status := ''cancelled'', paymentStatus := ''refunded''\<rparr>"

text \<open>
  A provider names rooms as requested when the name in each of its answers is the name it
  was asked for; \<open>echoDaily\<close> is such a provider. \<open>sampleWithRoom\<close> is the sample booking
  once \<open>echoDaily\<close> has given it a room on a request that wrote its id as \<open>a1\<close>.
\<close>

definition namesAsRequested :: "daily \<Rightarrow> bool" where
  "namesAsRequested post \<longleftrightarrow>
     (\<forall>room props n u. post room props = Some (n, u) \<longrightarrow> n = room)"

definition echoDaily :: daily where
  "echoDaily room props = Some (room, ''https://astro.daily.co/'' @ room)"

definition sampleWithRoom :: appointment where
  "sampleWithRoom = sample\<lparr>videoCall :=
          \<lparr>roomName = Some (''consultation-'' @ a1),
           roomUrl = Some (''https://astro.daily.co/consultation-'' @ a1), isActive = False,
           startedAt = None, endedAt = None, recordingUrl = None\<rparr>\<rparr>"

section \<open>Facts about the sample data and the store\<close>

lemma cast_samples:
  "castObjectId a1 = Some a1" "castObjectId a1upper = Some a1" "castObjectId a2 = Some a2"
  by code_simp+


lemma findById_stored: "findById [a1 \<mapsto> doc] a1 = Inr (Some (a1, doc))"
  by (simp add: findById_def cast_samples)

lemma findById_upper: "findById [a1 \<mapsto> doc] a1upper = Inr (Some (a1, doc))"
  by (simp add: findById_def cast_samples)


lemma findById_SomeD:
  "findById db i = Inr (Some (k, a)) \<Longrightarrow> castObjectId i = Some k \<and> db k = Some a"
  by (auto simp add: findById_def split: option.splits)

lemma sample_valid:
  "validateDocument sample" "validateDocument samplePending" "validateDocument sampleCompleted"
  "validateDocument sampleCancelled" "validateDocument sampleDateOnly"
  "validateDocument sampleWithRoom"
  by (simp_all add: validateDocument_def sample_def samplePending_def sampleCompleted_def
      sampleCancelled_def sampleDateOnly_def sampleWithRoom_def packageEnum_def statusEnum_def
      paymentStatusEnum_def)



lemma sampleDateOnly_facts:
  "status sampleDateOnly = ''confirmed''" "user sampleDateOnly = ''u1''"
  "appointmentDate sampleDateOnly = 1736467200000" "appointmentTime sampleDateOnly = ''17:00''"
  by (simp_all add: sampleDateOnly_def sample_def)

lemma save_valid: "validateDocument doc \<Longrightarrow> save db k doc = Inr (db(k \<mapsto> doc))"
  by (simp add: save_def)




lemma valid_ended:
  "validateDocument a \<Longrightarrow> validateDocument (a\<lparr>videoCall := v, status := ''completed''\<rparr>)"
  by (simp add: validateDocument_def statusEnum_def)

lemma valid_videoCall: "validateDocument a \<Longrightarrow> validateDocument (a\<lparr>videoCall := v\<rparr>)"
  by (simp add: validateDocument_def)

lemma invalid_in_progress: "\<not> validateDocument (a\<lparr>videoCall := v, status := ''in-progress''\<rparr>)"
  by (simp add: validateDocument_def statusEnum_def)

section \<open>Cancellation policy\<close>

lemma hoursUntil_ms: "hoursUntil a now < 2 \<longleftrightarrow> appointmentDate a - now < 7200000"
proof -
  have "hoursUntil a now < 2 \<longleftrightarrow>
          real_of_int (appointmentDate a - now) < real_of_int 7200000"
    by (simp add: hoursUntil_def Let_def)
  also have "\<dots> \<longleftrightarrow> appointmentDate a - now < 7200000"
    by (rule of_int_less_iff)
  finally show ?thesis .
qed


lemma cancel_too_late:
  assumes "findById db i = Inr (Some (k, a))" and "user a = uid"
    and "hoursUntil a now < 2 \<and> status a \<noteq> ''pending''"
  shows "cancel_appointment i uid now db = (Inl TooLate, db)"
  using assms by (simp add: cancel_appointment_def)


text \<open>
  C1 does not hold of the code: the lead time is taken to \<open>appointmentDate\<close> alone. The
  confirmed booking stored with the date 2025-01-10 and the slot \<open>17:00\<close> starts at
  17:00 of that day, as \<open>setHours\<close> puts it; at 14:00, three hours before, its owner's
  cancel is refused with \<open>TooLate\<close> and nothing is written.
\<close>

theorem cancel_three_hours_ahead_refused:
  "status sampleDateOnly = ''confirmed'' \<and>
   appointmentTime sampleDateOnly = ''17:00'' \<and>
   setHours 0 (appointmentDate sampleDateOnly) 17 0 - 1736517600000 = 3 * (1000 * 60 * 60) \<and>
   cancel_appointment a1 ''u1'' 1736517600000 [a1 \<mapsto> sampleDateOnly] =
     (Inl TooLate, [a1 \<mapsto> sampleDateOnly])"
proof -
  have "hoursUntil sampleDateOnly 1736517600000 < 2 \<and> status sampleDateOnly \<noteq> ''pending''"
    by (simp add: hoursUntil_ms sampleDateOnly_facts)
  from cancel_too_late [OF findById_stored sampleDateOnly_facts(2) this] show ?thesis
    by (simp add: sampleDateOnly_facts setHours_def)
qed

section \<open>Availability\<close>

lemma getDay_dateOnly_east:
  assumes "0 \<le> tz" and "tz < 1440"
  shows "getDay tz (dateOnly day) = Some ((day + 4) mod 7)"
proof -
  have "(day * 86400000 + tz * 60000) div 86400000 = day"
    using assms by (simp add: div_pos_pos_trivial)
  then show ?thesis
    by (simp add: getDay_def dateOnly_def)
qed

lemma available_slots_east:
  assumes "0 \<le> tz" and "tz < 1440"
  shows "available_slots tz (dateOnly day) =
           (if getUTCDay (dateOnly day) = Some 0 then [] else slots)"
  using getDay_dateOnly_east [OF assms, of day] getDay_dateOnly_east [of 0 day]
  by (simp add: available_slots_def getUTCDay_def Let_def)

text \<open>
  C8 does not hold of the code on a server west of UTC: the date is read as midnight UTC
  and its weekday is taken in local time. At UTC-5, 2025-01-12 (day 20100, a Sunday) gets
  the six slots and 2025-01-13 (a Monday) gets none.
\<close>

theorem sunday_has_slots_west_of_utc:
  "getUTCDay (dateOnly 20100) = Some 0 \<and>
   available_slots (- 300) (dateOnly 20100) = slots \<and>
   length slots = 6 \<and>
   getUTCDay (dateOnly 20101) = Some 1 \<and>
   available_slots (- 300) (dateOnly 20101) = []"
  by (simp add: getUTCDay_def getDay_def dateOnly_def available_slots_def Let_def slots_def)

section \<open>Admin status override\<close>




section \<open>Package resolution\<close>

lemma toLowerCase_keys:
  "toLowerCase ''Basic Consultation'' = ''basic consultation''"
  "toLowerCase ''Premium Consultation'' = ''premium consultation''"
  "toLowerCase ''Advanced Consultation'' = ''advanced consultation''"
  "toLowerCase ''basic'' = ''basic''"
  "toLowerCase ''premium'' = ''premium''"
  "toLowerCase ''advanced'' = ''advanced''"
  by code_simp+

lemma map_of_packageMapping:
  "map_of packageMapping n = Some p \<Longrightarrow>
     (n = ''Basic Consultation'' \<and> p = ''basic'') \<or>
     (n = ''Premium Consultation'' \<and> p = ''premium'') \<or>
     (n = ''Advanced Consultation'' \<and> p = ''advanced'') \<or>
     (n = ''basic'' \<and> p = ''basic'') \<or>
     (n = ''premium'' \<and> p = ''premium'') \<or>
     (n = ''advanced'' \<and> p = ''advanced'')"
  by (simp add: packageMapping_def split: if_splits)

lemma resolvePackage_key:
  "map_of packageMapping n = Some p \<Longrightarrow> resolvePackage (Some n) = Inr p"
  by (frule map_of_packageMapping)
    (auto simp add: resolvePackage_def mappedPackage_def packageEnum_def)

lemma resolvePackage_lower:
  assumes "toLowerCase n \<in> set packageEnum"
  shows "resolvePackage (Some n) = Inr (toLowerCase n)"
proof (cases "map_of packageMapping n")
  case None
  with assms show ?thesis
    by (auto simp add: resolvePackage_def mappedPackage_def packageEnum_def)
next
  case (Some p)
  from map_of_packageMapping [OF Some] assms have "p = toLowerCase n"
    by (auto simp add: toLowerCase_keys packageEnum_def)
  with resolvePackage_key [OF Some] show ?thesis
    by simp
qed

lemma resolvePackage_Inr: "resolvePackage nm = Inr p \<Longrightarrow> p \<in> set packageEnum"
  by (auto simp add: resolvePackage_def split: option.splits if_splits)

lemma resolvePackage_Inl: "resolvePackage nm = Inl f \<Longrightarrow> f = InvalidPackage"
  by (auto simp add: resolvePackage_def split: option.splits if_splits)

lemma create_invalid_package:
  assumes "\<not> falsy d" "\<not> falsy t" "\<not> falsy c" "resolvePackage (name info) = Inl f"
  shows "create_appointment es nid uid d t c (Some info) db = (Inl InvalidPackage, db)"
  using assms resolvePackage_Inl [OF assms(4)] by (simp add: create_appointment_def)

text \<open>
  C5, as stated, fails: the table is not case-insensitive. \<open>premium consultation\<close> is
  \<open>Premium Consultation\<close> up to letter case, yet the second resolves to \<open>premium\<close> and the
  first is refused with \<open>InvalidPackage\<close>.
\<close>

theorem package_case_counterexample:
  "toLowerCase ''premium consultation'' = toLowerCase ''Premium Consultation'' \<and>
   resolvePackage (Some ''Premium Consultation'') = Inr ''premium'' \<and>
   resolvePackage (Some ''premium consultation'') = Inl InvalidPackage"
  by code_simp

text \<open>
  C5, amended. Create resolves the package name by exact lookup in the six-entry synonym
  table and, for a name that is not a key, by lower-casing it; the outcome is one of
  \<open>basic\<close>, \<open>premium\<close>, \<open>advanced\<close> or the failure \<open>InvalidPackage\<close>. So a name whose
  lower-case form is a tier name resolves to that tier whatever its letter case, a key of
  the table resolves to its entry, every other name and an absent name are refused, and
  Create then fails with \<open>InvalidPackage\<close> and writes nothing.
\<close>

theorem package_resolution:
  "(resolvePackage nm = Inr p \<longrightarrow> p \<in> {''basic'', ''premium'', ''advanced''}) \<and>
   (map_of packageMapping n = Some p \<longrightarrow> resolvePackage (Some n) = Inr p) \<and>
   (toLowerCase n \<in> set packageEnum \<longrightarrow> resolvePackage (Some n) = Inr (toLowerCase n)) \<and>
   (map_of packageMapping n = None \<and> toLowerCase n \<notin> set packageEnum \<longrightarrow>
      resolvePackage (Some n) = Inl InvalidPackage) \<and>
   resolvePackage None = Inl InvalidPackage \<and>
   (\<not> falsy d \<and> \<not> falsy t \<and> \<not> falsy c \<and> resolvePackage (name info) = Inl f \<longrightarrow>
      create_appointment es nid uid d t c (Some info) db = (Inl InvalidPackage, db))"
proof (intro conjI impI)
  assume "resolvePackage nm = Inr p"
  from resolvePackage_Inr [OF this] show "p \<in> {''basic'', ''premium'', ''advanced''}"
    by (simp add: packageEnum_def)
next
  assume "map_of packageMapping n = Some p"
  then show "resolvePackage (Some n) = Inr p"
    by (rule resolvePackage_key)
next
  assume "toLowerCase n \<in> set packageEnum"
  then show "resolvePackage (Some n) = Inr (toLowerCase n)"
    by (rule resolvePackage_lower)
next
  assume "map_of packageMapping n = None \<and> toLowerCase n \<notin> set packageEnum"
  then show "resolvePackage (Some n) = Inl InvalidPackage"
    by (simp add: resolvePackage_def mappedPackage_def)
next
  show "resolvePackage None = Inl InvalidPackage"
    by (simp add: resolvePackage_def mappedPackage_def)
next
  assume "\<not> falsy d \<and> \<not> falsy t \<and> \<not> falsy c \<and> resolvePackage (name info) = Inl f"
  then show "create_appointment es nid uid d t c (Some info) db = (Inl InvalidPackage, db)"
    using create_invalid_package by blast
qed

text \<open>
  \<open>Premium Consultation\<close> resolves to \<open>premium\<close>, \<open>advanced\<close> to \<open>advanced\<close>,
  \<open>PREMIUM\<close> to \<open>premium\<close>; \<open>gold\<close> is refused, and a Create that names it fails with
  \<open>InvalidPackage\<close> on an untouched store.
\<close>

theorem package_resolution_witness:
  "resolvePackage (Some ''Premium Consultation'') = Inr ''premium'' \<and>
   resolvePackage (Some ''advanced'') = Inr ''advanced'' \<and>
   resolvePackage (Some ''PREMIUM'') = Inr ''premium'' \<and>
   resolvePackage (Some ''gold'') = Inl InvalidPackage \<and>
   create_appointment True ''a2'' ''u1'' (Some ''2025-01-10'') (Some ''17:00'') (Some ''career'')
       (Some \<lparr>name = Some ''gold'', price = Some 500, minutes = Some 30\<rparr>) Map.empty =
     (Inl InvalidPackage, Map.empty)"
proof -
  have k1: "map_of packageMapping ''Premium Consultation'' = Some ''premium''"
    and k2: "map_of packageMapping ''advanced'' = Some ''advanced''"
    and k3: "map_of packageMapping ''gold'' = None"
    by (simp_all add: packageMapping_def)
  have l1: "toLowerCase ''PREMIUM'' = ''premium''" and l2: "toLowerCase ''gold'' = ''gold''"
    by code_simp+
  have e1: "''premium'' \<in> set packageEnum" and e2: "''gold'' \<notin> set packageEnum"
    by (simp_all add: packageEnum_def)
  have g: "resolvePackage (Some ''gold'') = Inl InvalidPackage"
    using package_resolution [where n = "''gold''"] k3 l2 e2 by simp
  have f: "\<not> falsy (Some ''2025-01-10'')" "\<not> falsy (Some ''17:00'')" "\<not> falsy (Some ''career'')"
    by (simp_all add: falsy_def)
  show ?thesis
    using package_resolution [where nm = "Some ''Premium Consultation''"
        and n = "''Premium Consultation''" and p = "''premium''"]
      package_resolution [where n = "''advanced''" and p = "''advanced''"]
      package_resolution [where n = "''PREMIUM''"]
      package_resolution [where d = "Some ''2025-01-10''" and t = "Some ''17:00''"
        and c = "Some ''career''" and f = InvalidPackage
        and info = "\<lparr>name = Some ''gold'', price = Some 500, minutes = Some 30\<rparr>"
        and es = True and nid = "''a2''" and uid = "''u1''" and db = Map.empty]
      k1 k2 l1 e1 g f
    by simp
qed

section \<open>Create\<close>

lemma create_try_throws:
  "create_try es nid db = (Inl (if es then ReferenceError else ModuleNotFound), db)"
  by (simp add: create_try_def requireModule_def readBinding_def)

lemma create_valid_fails:
  assumes "\<not> falsy d" "\<not> falsy t" "\<not> falsy c" "resolvePackage (name info) = Inr p"
  shows "create_appointment es nid uid d t c (Some info) db = (Inl ServerError, db)"
  using assms
  by (simp add: create_appointment_def create_try_throws create_catch_def)

text \<open>
  C4 does not hold of the code: a Create whose fields are all present and whose package
  resolves (here to \<open>basic\<close>) answers with the server error of the \<open>catch\<close> block and
  stores nothing, because line 102 reads \<open>appointment\<close> before line 111 initialises it.
\<close>

theorem create_valid_request_fails:
  "create_appointment True ''a2'' ''u1'' (Some ''2025-01-10'') (Some ''17:00'') (Some ''career'')
       (Some \<lparr>name = Some ''basic'', price = Some 500, minutes = Some 30\<rparr>) Map.empty =
     (Inl ServerError, Map.empty)"
proof -
  have "resolvePackage (name \<lparr>name = Some ''basic'', price = Some 500, minutes = Some 30\<rparr>) =
          Inr ''basic''"
    by (simp add: resolvePackage_def mappedPackage_def packageMapping_def packageEnum_def)
  then show ?thesis
    by (intro create_valid_fails) (simp_all add: falsy_def)
qed

section \<open>Payment callbacks and call status\<close>

lemma fold_verifyUpdate:
  "fold setPath (castUpdate (verifyUpdate p now)) a =
     a\<lparr>paymentStatus := ''completed'', status := ''confirmed''\<rparr>"
  by (simp add: castUpdate_def verifyUpdate_def schemaPaths_def)


lemma verify_payment_found:
  assumes "findById db i = Inr (Some (k, a))"
  shows "verify_payment ord p sg i now db =
     (Inr (), db(k \<mapsto> a\<lparr>paymentStatus := ''completed'', status := ''confirmed''\<rparr>))"
  using findById_SomeD [OF assms]
  by (simp add: verify_payment_def findByIdAndUpdate_def fold_verifyUpdate)

lemma verify_payment_missing:
  "findById db i = Inr None \<Longrightarrow> verify_payment ord p sg i now db = (Inr (), db)"
  by (auto simp add: verify_payment_def findByIdAndUpdate_def findById_def
      split: option.splits)


lemma call_status_started:
  assumes "findById db i = Inr (Some (k, a))"
  shows "call_status i (Some ''started'') now db = (Inl ServerError, db, [])"
  using assms by (simp add: call_status_def save_def invalid_in_progress)

lemma call_status_ended:
  assumes "findById db i = Inr (Some (k, a))" and "validateDocument a"
  shows "call_status i (Some ''ended'') now db =
     (Inr (),
      db(k \<mapsto> a\<lparr>videoCall := (videoCall a)\<lparr>isActive := False, endedAt := Some now\<rparr>,
                  status := ''completed''\<rparr>),
      [DeleteRoom (roomName (videoCall a)) 3600000])"
  using assms(1) save_valid [OF valid_ended [OF assms(2)], of db k]
  by (simp add: call_status_def)

lemma call_status_other:
  assumes "findById db i = Inr (Some (k, a))" and "validateDocument a"
    and "st \<noteq> Some ''started''" and "st \<noteq> Some ''ended''"
  shows "call_status i st now db = (Inr (), db, [])"
proof -
  have "db(k \<mapsto> a) = db"
    using findById_SomeD [OF assms(1)] by (simp add: map_upd_triv)
  with assms save_valid [OF assms(2), of db k] show ?thesis
    by (simp add: call_status_def)
qed

text \<open>
  C3 does not hold of the code: \<open>in-progress\<close> is not a value of the schema's
  \<open>status\<close> enum, so the \<open>save()\<close> of SetCallStatus(\<open>started\<close>) is rejected, the handler
  answers with its server error and the stored booking is unchanged. An \<open>ended\<close> call one
  hour later then completes a booking that has an end time and no start time.
\<close>

theorem call_started_not_persisted:
  "''in-progress'' \<notin> set statusEnum \<and>
   call_status a1 (Some ''started'') 1736528400000 [a1 \<mapsto> sample] =
     (Inl ServerError, [a1 \<mapsto> sample], []) \<and>
   map_option (\<lambda>doc. (status doc, startedAt (videoCall doc), endedAt (videoCall doc)))
     (fst (snd (call_status a1 (Some ''ended'') 1736532000000 [a1 \<mapsto> sample])) a1) =
     Some (''completed'', None, Some 1736532000000)"
proof -
  have "startedAt (videoCall sample) = None"
    by (simp add: sample_def)
  with call_status_started [OF findById_stored [of sample], of 1736528400000]
    call_status_ended [OF findById_stored sample_valid(1), of 1736532000000]
  show ?thesis
    by (simp add: statusEnum_def)
qed

text \<open>
  C9 does not hold of the code: SetCallStatus with the status \<open>paused\<close>, which is neither
  \<open>started\<close> nor \<open>ended\<close>, reports success, starts no timer and leaves the stored booking
  as it was.
\<close>

theorem call_status_unknown_reports_success:
  "call_status a1 (Some ''paused'') 1736528400000 [a1 \<mapsto> sample] =
     (Inr (), [a1 \<mapsto> sample], [])"
  by (rule call_status_other [OF findById_stored sample_valid(1)]) simp_all

text \<open>
  C10 does not hold of the code in one point: payment verify reports success whatever
  order id, payment id and signature it is given, and sets \<open>paymentStatus = completed\<close> and
  \<open>status = confirmed\<close> on the booking, but the schema declares neither \<open>paidAt\<close> nor
  \<open>razorpayPaymentId\<close>, so the strict update drops both: no paid-at time is stored.
\<close>

theorem verify_drops_paidAt:
  "verify_payment (Str ''order_1'') (Str ''pay_1'') (Str ''forged'') a1 1736500000000
       [a1 \<mapsto> samplePending] =
     (Inr (),
      [a1 \<mapsto> samplePending\<lparr>paymentStatus := ''completed'', status := ''confirmed''\<rparr>]) \<and>
   castUpdate (verifyUpdate (Str ''pay_1'') 1736500000000) =
     [(''paymentStatus'', Str ''completed''), (''status'', Str ''confirmed'')] \<and>
   ''paidAt'' \<notin> set schemaPaths \<and> ''razorpayPaymentId'' \<notin> set schemaPaths"
  using verify_payment_found [OF findById_stored [of samplePending]]
  by (simp add: castUpdate_def verifyUpdate_def schemaPaths_def)

section \<open>Terminal states\<close>




section \<open>Room names\<close>

lemma createRoom_Inr:
  "createRoom post now i (Some e) = Inr (n, u) \<longleftrightarrow>
   post (''consultation-'' @ i) (roomConfig e) = Some (n, u)"
  by (auto simp add: createRoom_def Let_def split: option.splits)

lemma createRoom_named:
  assumes "namesAsRequested post" and "createRoom post now i (Some e) = Inr (n, u)"
  shows "n = ''consultation-'' @ i"
  using assms by (auto simp add: createRoom_Inr namesAsRequested_def)

lemma create_room_Inr:
  assumes "findById db i = Inr (Some (k, a))"
    and "fst (create_room post now i uid role db) = Inr (n, u, j)"
  shows "post (''consultation-'' @ i) (roomConfig (appointmentDate a + 3 * 60 * 60 * 1000)) =
           Some (n, u) \<and>
         j = k \<and>
         snd (create_room post now i uid role db) =
           db(k \<mapsto> a\<lparr>videoCall :=
                     \<lparr>roomName = Some n, roomUrl = Some u, isActive = False,
                      startedAt = None, endedAt = None, recordingUrl = None\<rparr>\<rparr>)"
  using assms
  by (auto simp add: create_room_def Let_def save_def createRoom_def
      split: option.splits if_splits sum.splits)

lemma create_room_roomName:
  assumes "findById db i = Inr (Some (k, a))"
  shows "map_option (roomName \<circ> videoCall) (snd (create_room post now i uid role db) k) =
           Some (case fst (create_room post now i uid role db) of
                   Inl f \<Rightarrow> roomName (videoCall a)
                 | Inr (n, u, j) \<Rightarrow> Some n)"
  using assms findById_SomeD [OF assms]
  by (auto simp add: create_room_def Let_def save_def split: option.splits sum.splits)

lemma echoDaily_names: "namesAsRequested echoDaily"
  by (auto simp add: namesAsRequested_def echoDaily_def)

lemma create_room_echo_sample:
  "create_room echoDaily now a1 ''u1'' ''client'' [a1 \<mapsto> sample] =
     (Inr (''consultation-'' @ a1, ''https://astro.daily.co/consultation-'' @ a1, a1),
      [a1 \<mapsto> sampleWithRoom])"
proof -
  have "user sample = ''u1''"
    by (simp add: sample_def)
  moreover have "validateDocument sampleWithRoom"
    by (rule sample_valid)
  ultimately show ?thesis
    by (simp add: create_room_def findById_stored Let_def createRoom_def echoDaily_def
        save_def sampleWithRoom_def)
qed

text \<open>
  C6, as stated, fails: CreateRoom has no guard, and it names the room after the id as
  the request writes it. The booking stores the room name \<open>consultation-<a1>\<close>; a second
  CreateRoom by its owner that writes the same ObjectId in upper-case letters, answered
  by a provider that names rooms as requested, stores a different name.
\<close>

theorem create_room_overwrite_counterexample:
  "castObjectId a1upper = castObjectId a1 \<and>
   map_option (roomName \<circ> videoCall) ([a1 \<mapsto> sampleWithRoom] a1) =
     Some (Some ''consultation-507f1f77bcf86cd799439011'') \<and>
   map_option (roomName \<circ> videoCall)
     (snd (create_room echoDaily 1736521200000 a1upper ''u1'' ''client''
             [a1 \<mapsto> sampleWithRoom]) a1) =
     Some (Some ''consultation-507F1F77BCF86CD799439011'')"
proof -
  have "user sampleWithRoom = ''u1''"
    by (simp add: sampleWithRoom_def sample_def)
  moreover have "validateDocument
      (sampleWithRoom\<lparr>videoCall :=
         \<lparr>roomName = Some (''consultation-'' @ a1upper),
          roomUrl = Some (''https://astro.daily.co/consultation-'' @ a1upper),
          isActive = False, startedAt = None, endedAt = None, recordingUrl = None\<rparr>\<rparr>)"
    by (rule valid_videoCall [OF sample_valid(6)])
  ultimately have "fst (create_room echoDaily 1736521200000 a1upper ''u1'' ''client''
                    [a1 \<mapsto> sampleWithRoom]) =
               Inr (''consultation-'' @ a1upper,
                    ''https://astro.daily.co/consultation-'' @ a1upper, a1)"
    by (simp add: create_room_def findById_upper Let_def createRoom_def echoDaily_def
        save_def)
  with create_room_roomName [OF findById_upper [of sampleWithRoom],
      of echoDaily 1736521200000 "''u1''" "''client''"]
  show ?thesis
    by (simp add: cast_samples) (simp add: sampleWithRoom_def a1_def a1upper_def)
qed

text \<open>
  C6, amended. CreateRoom has no guard: every successful call replaces \<open>videoCall\<close> by
  the room name and URL that the provider returned for the name \<open>consultation-<id>\<close>,
  the id being the one the request wrote, with \<open>isActive\<close> false. So, provided the
  provider names rooms as requested, the stored name is \<open>consultation-<id>\<close>, and a
  later CreateRoom whose request writes the id in the same way leaves that name stored,
  whoever calls and whatever the outcome.
\<close>

theorem create_room_name_stable:
  assumes "findById db i = Inr (Some (k, a))"
    and "fst (create_room post1 now1 i uid1 role1 db) = Inr (n, u, j)"
  shows "post1 (''consultation-'' @ i)
           (roomConfig (appointmentDate a + 3 * 60 * 60 * 1000)) = Some (n, u) \<and>
         snd (create_room post1 now1 i uid1 role1 db) =
           db(k \<mapsto> a\<lparr>videoCall :=
                     \<lparr>roomName = Some n, roomUrl = Some u, isActive = False,
                      startedAt = None, endedAt = None, recordingUrl = None\<rparr>\<rparr>) \<and>
         (namesAsRequested post1 \<longrightarrow> n = ''consultation-'' @ i) \<and>
         (namesAsRequested post1 \<and> namesAsRequested post2 \<longrightarrow>
            map_option (roomName \<circ> videoCall)
              (snd (create_room post2 now2 i uid2 role2
                      (snd (create_room post1 now1 i uid1 role1 db))) k) = Some (Some n))"
proof -
  let ?a1 = "a\<lparr>videoCall :=
                     \<lparr>roomName = Some n, roomUrl = Some u, isActive = False,
                      startedAt = None, endedAt = None, recordingUrl = None\<rparr>\<rparr>"
  let ?db1 = "snd (create_room post1 now1 i uid1 role1 db)"
  from create_room_Inr [OF assms] have
    r: "post1 (''consultation-'' @ i)
          (roomConfig (appointmentDate a + 3 * 60 * 60 * 1000)) = Some (n, u)"
    and d: "?db1 = db(k \<mapsto> ?a1)"
    by blast+
  have named: "n = ''consultation-'' @ i" if "namesAsRequested post1"
    using that r by (auto simp add: namesAsRequested_def)
  have f1: "findById ?db1 i = Inr (Some (k, ?a1))"
    using findById_SomeD [OF assms(1)] by (simp add: d findById_def)
  have again: "map_option (roomName \<circ> videoCall)
                 (snd (create_room post2 now2 i uid2 role2 ?db1) k) = Some (Some n)"
    if e1: "namesAsRequested post1" and e2: "namesAsRequested post2"
  proof (cases "fst (create_room post2 now2 i uid2 role2 ?db1)")
    case (Inl f)
    with create_room_roomName [OF f1, of post2 now2 uid2 role2] show ?thesis
      by simp
  next
    case (Inr res)
    obtain n2 u2 j2 where res: "res = (n2, u2, j2)"
      by (cases res) auto
    from create_room_Inr [OF f1, of post2 now2 uid2 role2 n2 u2 j2] Inr res
    have "post2 (''consultation-'' @ i)
            (roomConfig (appointmentDate ?a1 + 3 * 60 * 60 * 1000)) = Some (n2, u2)"
      by simp
    with e2 have "n2 = ''consultation-'' @ i"
      by (auto simp add: namesAsRequested_def)
    with named [OF e1] create_room_roomName [OF f1, of post2 now2 uid2 role2] Inr res
    show ?thesis
      by simp
  qed
  from r d named again show ?thesis
    by blast
qed

text \<open>
  With a provider that names rooms as requested, the owner's CreateRoom on the sample
  booking stores the name and URL of \<open>consultation-<a1>\<close>, and an administrator's
  CreateRoom an hour later, writing the id in the same way, leaves that name stored.
\<close>

theorem create_room_name_stable_witness:
  "create_room echoDaily 1736517600000 a1 ''u1'' ''client'' [a1 \<mapsto> sample] =
     (Inr (''consultation-'' @ a1, ''https://astro.daily.co/consultation-'' @ a1, a1),
      [a1 \<mapsto> sampleWithRoom]) \<and>
   echoDaily (''consultation-'' @ a1) (roomConfig (appointmentDate sample + 3 * 60 * 60 * 1000)) =
     Some (''consultation-'' @ a1, ''https://astro.daily.co/consultation-'' @ a1) \<and>
   roomUrl (videoCall sampleWithRoom) = Some (''https://astro.daily.co/consultation-'' @ a1) \<and>
   map_option (roomName \<circ> videoCall)
     (snd (create_room echoDaily 1736521200000 a1 ''admin-1'' ''admin''
             [a1 \<mapsto> sampleWithRoom]) a1) = Some (Some (''consultation-'' @ a1))"
proof -
  have s: "fst (create_room echoDaily 1736517600000 a1 ''u1'' ''client'' [a1 \<mapsto> sample]) =
             Inr (''consultation-'' @ a1, ''https://astro.daily.co/consultation-'' @ a1, a1)"
    by (simp add: create_room_echo_sample)
  from create_room_name_stable [OF findById_stored s,
      where ?post2.0 = echoDaily and ?now2.0 = 1736521200000 and ?uid2.0 = "''admin-1''"
        and ?role2.0 = "''admin''"]
    echoDaily_names create_room_echo_sample [of 1736517600000]
  show ?thesis
    by (simp add: sampleWithRoom_def)
qed

end
